theory Spec2Isabelle
  imports Complex_Main "HOL-Library.Word"
begin

section \<open>JavaScript strings and numbers\<close>

text \<open>
  A JavaScript string is a sequence of UTF-16 code units. ASCII literals of the
  source are written \<open>utf16 ''...''\<close>; the pictographs of the attendance report are
  given by their code units.
\<close>

type_synonym code_unit = "16 word"
type_synonym jsstring = "code_unit list"

definition utf16 :: "string \<Rightarrow> jsstring" where
  "utf16 s = map (\<lambda>c. of_nat (of_char c)) s"

text \<open>
  \<open>String.prototype.trim\<close> strips WhiteSpace and LineTerminator code points from
  both ends: TAB, LF, VT, FF, CR, SP, NBSP, the Unicode space separators, LS, PS and
  the byte order mark.
\<close>

definition isWhiteSpace :: "code_unit \<Rightarrow> bool" where
  "isWhiteSpace c \<longleftrightarrow>
     c \<in> {0x09, 0x0A, 0x0B, 0x0C, 0x0D, 0x20, 0xA0, 0x1680,
          0x2028, 0x2029, 0x202F, 0x205F, 0x3000, 0xFEFF}
     \<or> (0x2000 \<le> c \<and> c \<le> 0x200A)"

definition trim :: "jsstring \<Rightarrow> jsstring" where
  "trim s = rev (dropWhile isWhiteSpace (rev (dropWhile isWhiteSpace s)))"

text \<open>A string is falsy exactly when it is empty.\<close>

definition truthy :: "jsstring \<Rightarrow> bool" where
  "truthy s \<longleftrightarrow> s \<noteq> []"

text \<open>The decimal digits of a non-negative integer, as template literals print it.\<close>

definition digit :: "nat \<Rightarrow> code_unit" where
  "digit d = of_nat (48 + d)"

fun showNat :: "nat \<Rightarrow> jsstring" where
  "showNat n = (if n < 10 then [digit n] else showNat (n div 10) @ [digit (n mod 10)])"

declare showNat.simps [simp del]

text \<open>
  Numbers that are not counts are modelled as exact rationals: every finite double is
  a rational and \<open><\<close>, \<open>\<ge>\<close> and \<open>===\<close> on doubles compare the exact values. The
  rounding error of a double division or multiplication (relative error at most
  \<open>2\<^sup>-\<^sup>5\<^sup>3\<close>) is not modelled: where an exact quotient lies halfway between
  two tenths, the double may fall to either side and the browser print either neighbour.

  \<open>x.toFixed(1)\<close> takes the integer \<open>n\<close> for which \<open>n / 10 - x\<close> is closest to
  zero, the larger one of two, and prints it with one digit after the point; a negative
  \<open>x\<close> is printed as \<open>-\<close> followed by the result for \<open>-x\<close>. (From \<open>10\<^sup>2\<^sup>1\<close> on,
  JavaScript prints an exponent instead; attendance figures are far below.)
\<close>

definition roundHalfUp :: "rat \<Rightarrow> int" where
  "roundHalfUp x = \<lfloor>x + 1 / 2\<rfloor>"

definition fixed1 :: "nat \<Rightarrow> jsstring" where
  "fixed1 n = showNat (n div 10) @ utf16 ''.'' @ showNat (n mod 10)"

definition toFixed1 :: "rat \<Rightarrow> jsstring" where
  "toFixed1 x =
     (if x < 0 then utf16 ''-'' @ fixed1 (nat (roundHalfUp (10 * (- x))))
      else fixed1 (nat (roundHalfUp (10 * x))))"

text \<open>
  \<open>overallPercentage\<close> is either the string made by \<open>toFixed\<close> or the number \<open>0\<close>.
\<close>

datatype js_value = Num nat | Str jsstring

fun toString :: "js_value \<Rightarrow> jsstring" where
  "toString (Num n) = showNat n"
| "toString (Str s) = s"

text \<open>
  The number that a string of the form \<open>digits.digit\<close> denotes (what \<open>Number(s)\<close>
  would give back); it serves to state numeric bounds on the printed percentage.
\<close>

definition digitVal :: "code_unit \<Rightarrow> nat option" where
  "digitVal c = (if 0x30 \<le> c \<and> c \<le> 0x39 then Some (unat c - 48) else None)"

fun valueOfRev :: "jsstring \<Rightarrow> nat option" where
  "valueOfRev [] = None"
| "valueOfRev [c] = digitVal c"
| "valueOfRev (c # cs) =
     (case (digitVal c, valueOfRev cs) of
        (Some d, Some v) \<Rightarrow> Some (d + 10 * v)
      | _ \<Rightarrow> None)"

definition parseNat :: "jsstring \<Rightarrow> nat option" where
  "parseNat s = valueOfRev (rev s)"

definition parseFixed1 :: "jsstring \<Rightarrow> rat option" where
  "parseFixed1 s =
     (case rev s of
        d # p # whole \<Rightarrow>
          (if p = 0x2E then
             (case (digitVal d, valueOfRev whole) of
                (Some t, Some w) \<Rightarrow> Some (of_nat w + of_nat t / 10)
              | _ \<Rightarrow> None)
           else None)
      | _ \<Rightarrow> None)"

fun toNumber :: "js_value \<Rightarrow> rat option" where
  "toNumber (Num n) = Some (of_nat n)"
| "toNumber (Str s) = parseFixed1 s"

section \<open>Attendance records and the aggregation of the chat fast path\<close>

record attendance_record =
  course_id :: jsstring
  course_name :: jsstring
  attended :: nat
  total_classes :: nat
  percentage :: rat

text \<open>
  The locals of \<open>fetchAttendance\<close> (ChatInterface.jsx), computed from
  \<open>data.attendance\<close>. Counts are non-negative integers and a percentage is a number,
  as the data model has them; a record without a percentage is not modelled. The
  source computes them only for a non-empty sequence (see \<open>attendanceAnswer\<close> below).
\<close>

definition totalClasses :: "attendance_record list \<Rightarrow> nat" where
  "totalClasses rs = foldl (\<lambda>sum r. sum + total_classes r) 0 rs"

definition totalAttended :: "attendance_record list \<Rightarrow> nat" where
  "totalAttended rs = foldl (\<lambda>sum r. sum + attended r) 0 rs"

definition overallPercentage :: "attendance_record list \<Rightarrow> js_value" where
  "overallPercentage rs =
     (if totalClasses rs > 0
      then Str (toFixed1 (of_nat (totalAttended rs) / of_nat (totalClasses rs) * 100))
      else Num 0)"

definition lowAttendance :: "attendance_record list \<Rightarrow> attendance_record list" where
  "lowAttendance rs = filter (\<lambda>r. percentage r < 75) rs"

text \<open>The mark shown beside a course in the report.\<close>

definition newline :: jsstring where
  "newline = [0x0A]"

definition chartIcon :: jsstring where
  "chartIcon = [0xD83D, 0xDCCA]"

definition trendIcon :: jsstring where
  "trendIcon = [0xD83D, 0xDCC8]"

definition booksIcon :: jsstring where
  "booksIcon = [0xD83D, 0xDCDA]"

definition checkMark :: jsstring where
  "checkMark = [0x2705]"

definition warningSign :: jsstring where
  "warningSign = [0x26A0, 0xFE0F]"

definition heavyRule :: jsstring where
  "heavyRule = replicate 30 0x2501"

definition recordStatus :: "attendance_record \<Rightarrow> jsstring" where
  "recordStatus r = (if percentage r \<ge> 75 then checkMark else warningSign)"

text \<open>The body of the \<open>forEach\<close> over the records: what one record adds to the report.\<close>

definition recordLines :: "nat \<Rightarrow> attendance_record \<Rightarrow> jsstring" where
  "recordLines idx r =
     showNat (idx + 1) @ utf16 ''. **'' @ course_name r @ utf16 ''** ('' @ course_id r
       @ utf16 '')'' @ newline
     @ utf16 ''   '' @ recordStatus r @ utf16 '' '' @ toFixed1 (percentage r) @ utf16 ''% | ''
       @ showNat (attended r) @ utf16 ''/'' @ showNat (total_classes r) @ utf16 '' classes''
       @ newline
     @ (if percentage r < 75
        then utf16 ''   '' @ warningSign @ utf16 '' Below 75% - Needs improvement!'' @ newline
        else [])
     @ newline"

definition formattedContent :: "attendance_record list \<Rightarrow> jsstring" where
  "formattedContent rs =
     chartIcon @ utf16 '' **Your Attendance Report**'' @ newline @ newline
     @ heavyRule @ newline
     @ trendIcon @ utf16 '' **Overall Attendance: '' @ toString (overallPercentage rs)
       @ utf16 ''%**'' @ newline
     @ utf16 ''   Total Classes: '' @ showNat (totalClasses rs) @ utf16 '' | Attended: ''
       @ showNat (totalAttended rs) @ newline
     @ heavyRule @ newline @ newline
     @ booksIcon @ utf16 '' **Subject-wise Breakdown:**'' @ newline @ newline
     @ concat (map (\<lambda>(idx, r). recordLines idx r) (enumerate 0 rs))
     @ (if length (lowAttendance rs) > 0
        then newline @ warningSign @ utf16 '' **Alert:** '' @ showNat (length (lowAttendance rs))
               @ utf16 '' subject(s) below 75% attendance threshold.''
        else newline @ checkMark
               @ utf16 '' **Great job!** All subjects have attendance above 75%.'')"

section \<open>The chat component: transcript, busy flag and requests\<close>

datatype role = User | Assistant

text \<open>
  A message of the transcript. \<open>sources\<close>, \<open>actions\<close> and \<open>attendanceData\<close> are
  \<open>None\<close> where the object literal of the source has no such property.
\<close>

record message =
  role :: role
  content :: jsstring
  sources :: "jsstring list option"
  actions :: "jsstring list option"
  attendanceData :: "attendance_record list option"

definition plain :: "role \<Rightarrow> jsstring \<Rightarrow> message" where
  "plain r c = \<lparr>role = r, content = c, sources = None, actions = None, attendanceData = None\<rparr>"

text \<open>
  The two requests the component issues with \<open>fetch\<close>, each with the token it puts
  after \<open>Bearer\<close>; the chat request carries the \<open>messages\<close> of its body.
\<close>

datatype request =
    ChatRequest "jsstring option" "message list"
  | AttendanceRequest "jsstring option"

fun isChatRequest :: "request \<Rightarrow> bool" where
  "isChatRequest (ChatRequest t ms) = True"
| "isChatRequest (AttendanceRequest t) = False"

text \<open>
  How an awaited \<open>fetch\<close> followed by \<open>response.json()\<close> can end: \<open>fetch\<close> rejects
  (no response), or a response with some HTTP status arrives whose body is not JSON
  (\<open>json()\<close> rejects), is the JSON value \<open>null\<close>, or is an object. \<open>fetch\<close>
  does not reject on a status outside 2xx, and the component never reads the status.
  (A JSON number, string, boolean or array has none of the properties the component
  reads and is handled as an object without them.)
\<close>

datatype 'a body = NotJson | JsonNull | JsonObject 'a

datatype 'a fetch_outcome = NetworkError | Response nat "'a body"

record chat_data =
  data_reply :: "jsstring option"
  data_sources :: "jsstring list option"
  data_actions :: "jsstring list option"

record attendance_data =
  data_attendance :: "attendance_record list option"

text \<open>
  The state of one mounted \<open>ChatInterface\<close>: its \<open>token\<close> property, its three state
  variables, and the requests it has issued that have not settled yet. The component
  is given the token only to read it: it is not passed \<open>setToken\<close> and does not touch
  the stored token. Event handlers belong to the latest render, so the \<open>messages\<close>
  they close over is the state's.
\<close>

record chat_state =
  token :: "jsstring option"
  messages :: "message list"
  input :: jsstring
  loading :: bool
  inflight :: "request list"

definition initial :: "jsstring option \<Rightarrow> chat_state" where
  "initial tok = \<lparr>token = tok, messages = [], input = [], loading = False, inflight = []\<rparr>"

text \<open>\<open>a || b\<close> on an optional string and on an optional array (an array is always truthy).\<close>

definition stringOr :: "jsstring option \<Rightarrow> jsstring \<Rightarrow> jsstring" where
  "stringOr a b = (case a of Some s \<Rightarrow> if truthy s then s else b | None \<Rightarrow> b)"

definition arrayOr :: "'a list option \<Rightarrow> 'a list \<Rightarrow> 'a list" where
  "arrayOr a b = (case a of Some xs \<Rightarrow> xs | None \<Rightarrow> b)"

text \<open>
  \<open>sendMessage\<close> up to its \<open>await\<close>: the early return on blank text, the user message,
  the cleared input, the busy flag and the request.
\<close>

definition sendMessage :: "jsstring \<Rightarrow> chat_state \<Rightarrow> chat_state" where
  "sendMessage txt st =
     (if \<not> truthy (trim txt) then st
      else let userMessage = plain User txt in
        st\<lparr>messages := messages st @ [userMessage],
           input := [],
           loading := True,
           inflight := inflight st @ [ChatRequest (token st) (messages st @ [userMessage])]\<rparr>)"

text \<open>
  The object that the updater of the \<open>try\<close> block builds from a decoded object.
\<close>

definition assistantReply :: "chat_data \<Rightarrow> message" where
  "assistantReply data =
     \<lparr>role = Assistant,
      content = stringOr (data_reply data) (utf16 ''Sorry, I could not process your request.''),
      sources = Some (arrayOr (data_sources data) []),
      actions = Some (arrayOr (data_actions data) []),
      attendanceData = None\<rparr>"

text \<open>
  \<open>sendMessage\<close> reads \<open>data.reply\<close> inside the updater it hands to \<open>setMessages\<close>.
  React runs the updater when it processes the update, not inside the \<open>try\<close> block,
  so for a \<open>null\<close> body the TypeError is thrown while React renders: the \<open>catch\<close>
  block is not reached, no message is appended, and as nothing catches the error the
  component is gone. The \<open>catch\<close> block is reached when the awaited \<open>fetch\<close> or
  \<open>json()\<close> rejects.
\<close>

datatype error = TypeError

definition chatAnswer :: "chat_data fetch_outcome \<Rightarrow> error + message" where
  "chatAnswer outcome =
     (case outcome of
        NetworkError \<Rightarrow> Inr (plain Assistant (utf16 ''Error: Could not connect to the server.''))
      | Response http NotJson \<Rightarrow>
          Inr (plain Assistant (utf16 ''Error: Could not connect to the server.''))
      | Response http JsonNull \<Rightarrow> Inl TypeError
      | Response http (JsonObject data) \<Rightarrow> Inr (assistantReply data))"

text \<open>
  \<open>sendMessage\<close> after its \<open>await\<close>, when request \<open>req\<close> has settled with \<open>outcome\<close>:
  the new state, or the error thrown in rendering.
\<close>

definition sendMessage_resume ::
    "request \<Rightarrow> chat_data fetch_outcome \<Rightarrow> chat_state \<Rightarrow> error + chat_state" where
  "sendMessage_resume req outcome st =
     (case chatAnswer outcome of
        Inl err \<Rightarrow> Inl err
      | Inr m \<Rightarrow>
          Inr (st\<lparr>messages := messages st @ [m],
                 loading := False,
                 inflight := remove1 req (inflight st)\<rparr>))"

text \<open>
  \<open>fetchAttendance\<close>, likewise in two parts. It reads \<open>data.attendance\<close> inside its
  \<open>try\<close> block, so a \<open>null\<close> body reaches its \<open>catch\<close> block and nothing is thrown.
\<close>

definition fetchAttendance :: "chat_state \<Rightarrow> chat_state" where
  "fetchAttendance st =
     (let userMessage = plain User (utf16 ''Show my attendance'') in
        st\<lparr>messages := messages st @ [userMessage],
           loading := True,
           inflight := inflight st @ [AttendanceRequest (token st)]\<rparr>)"

definition attendanceAnswer :: "attendance_data fetch_outcome \<Rightarrow> message" where
  "attendanceAnswer outcome =
     (case outcome of
        Response http (JsonObject data) \<Rightarrow>
          (case data_attendance data of
             Some rs \<Rightarrow>
               (if length rs > 0
                then \<lparr>role = Assistant, content = formattedContent rs, sources = None,
                      actions = None, attendanceData = Some rs\<rparr>
                else plain Assistant (utf16 ''No attendance records found for your courses.''))
           | None \<Rightarrow> plain Assistant (utf16 ''No attendance records found for your courses.''))
      | _ \<Rightarrow> plain Assistant (utf16 ''Error: Could not fetch attendance data.''))"

definition fetchAttendance_resume ::
    "request \<Rightarrow> attendance_data fetch_outcome \<Rightarrow> chat_state \<Rightarrow> chat_state" where
  "fetchAttendance_resume req outcome st =
     st\<lparr>messages := messages st @ [attendanceAnswer outcome],
        loading := False,
        inflight := remove1 req (inflight st)\<rparr>"

datatype prompt_action = AttendanceAction | ChatAction

record prompt =
  prompt_text :: jsstring
  prompt_action :: prompt_action

definition suggestedPrompts :: "prompt list" where
  "suggestedPrompts =
     [\<lparr>prompt_text = utf16 ''Show my attendance'', prompt_action = AttendanceAction\<rparr>,
      \<lparr>prompt_text = utf16 ''Today's schedule'', prompt_action = ChatAction\<rparr>,
      \<lparr>prompt_text = utf16 ''Upcoming exams'', prompt_action = ChatAction\<rparr>,
      \<lparr>prompt_text = utf16 ''Book faculty meeting'', prompt_action = ChatAction\<rparr>,
      \<lparr>prompt_text = utf16 ''Check fee status'', prompt_action = ChatAction\<rparr>,
      \<lparr>prompt_text = utf16 ''Faculty contacts'', prompt_action = ChatAction\<rparr>]"

definition handlePromptClick :: "prompt \<Rightarrow> chat_state \<Rightarrow> chat_state" where
  "handlePromptClick p st =
     (if prompt_action p = AttendanceAction then fetchAttendance st
      else sendMessage (prompt_text p) st)"

definition handleSubmit :: "chat_state \<Rightarrow> chat_state" where
  "handleSubmit st = sendMessage (input st) st"

section \<open>The rendered controls\<close>

text \<open>
  What the JSX makes of the state: the text field has \<open>disabled={loading}\<close>, the send
  button \<open>disabled={loading || !input.trim()}\<close>, and the buttons of the suggested
  prompts are rendered only while \<open>messages.length === 0\<close>.
\<close>

definition inputDisabled :: "chat_state \<Rightarrow> bool" where
  "inputDisabled st \<longleftrightarrow> loading st"

definition sendDisabled :: "chat_state \<Rightarrow> bool" where
  "sendDisabled st \<longleftrightarrow> loading st \<or> \<not> truthy (trim (input st))"

definition promptsShown :: "chat_state \<Rightarrow> bool" where
  "promptsShown st \<longleftrightarrow> length (messages st) = 0"

text \<open>
  The events of a conversation: the user types into the field, submits the form,
  clicks a suggested prompt, or a request in flight settles. A disabled or absent
  control delivers no event to its handler, and only a request in flight can settle.
\<close>

datatype event =
    Change jsstring
  | Submit
  | Click prompt
  | ChatSettled "chat_data fetch_outcome"
  | AttendanceSettled "attendance_data fetch_outcome"

fun step :: "event \<Rightarrow> chat_state \<Rightarrow> error + chat_state" where
  "step (Change v) st = Inr (if inputDisabled st then st else st\<lparr>input := v\<rparr>)"
| "step Submit st = Inr (if sendDisabled st then st else handleSubmit st)"
| "step (Click p) st =
     Inr (if promptsShown st \<and> p \<in> set suggestedPrompts then handlePromptClick p st else st)"
| "step (ChatSettled outcome) st =
     (case find isChatRequest (inflight st) of
        Some req \<Rightarrow> sendMessage_resume req outcome st
      | None \<Rightarrow> Inr st)"
| "step (AttendanceSettled outcome) st =
     (case find (\<lambda>req. \<not> isChatRequest req) (inflight st) of
        Some req \<Rightarrow> Inr (fetchAttendance_resume req outcome st)
      | None \<Rightarrow> Inr st)"

text \<open>A conversation: the events in order, up to the first one that throws.\<close>

fun run :: "event list \<Rightarrow> chat_state \<Rightarrow> error + chat_state" where
  "run [] st = Inr st"
| "run (e # es) st = (case step e st of Inl err \<Rightarrow> Inl err | Inr st' \<Rightarrow> run es st')"

section \<open>The pages: attendance badge, average attendance, fee status\<close>

text \<open>
  The status column of AttendancePage and ProfilePage:
  \<open>record.percentage >= 75 ? Good : Low\<close>.
\<close>

datatype badge = Good | Low

definition attendanceBadge :: "attendance_record \<Rightarrow> badge" where
  "attendanceBadge r = (if percentage r \<ge> 75 then Good else Low)"

text \<open>
  \<open>avgAttendance\<close> of DashboardPage and of ProfilePage (the same expression in both).
  The page's \<open>attendance\<close> is \<open>null\<close> until the response arrives, and the response may
  lack the \<open>attendance\<close> property.
\<close>

definition avgAttendance :: "attendance_data option \<Rightarrow> rat" where
  "avgAttendance att =
     (case Option.bind att data_attendance of
        Some rs \<Rightarrow>
          (if length rs > 0
           then foldl (\<lambda>sum r. sum + percentage r) 0 rs / of_nat (length rs)
           else 0)
      | None \<Rightarrow> 0)"

record fee_status =
  total :: "rat option"
  paid :: "rat option"
  due :: "rat option"
  status :: "jsstring option"

datatype fee_banner = PaidInFull | OutstandingBalance rat

text \<open>\<open>a || 0\<close> on an optional number.\<close>

definition numberOr :: "rat option \<Rightarrow> rat \<Rightarrow> rat" where
  "numberOr a b = (case a of Some x \<Rightarrow> if x \<noteq> 0 then x else b | None \<Rightarrow> b)"

text \<open>
  The banner under the fee figures of ProfilePage:
  \<open>fees?.due === 0 ? paid in full : outstanding balance fees?.due || 0\<close>.
\<close>

definition profileFeeBanner :: "fee_status option \<Rightarrow> fee_banner" where
  "profileFeeBanner fees =
     (if Option.bind fees due = Some 0 then PaidInFull
      else OutstandingBalance (numberOr (Option.bind fees due) 0))"

text \<open>FeesPage: \<open>isPaid = fees?.due === 0 || fees?.status === "Paid"\<close> and its banner.\<close>

definition isPaid :: "fee_status option \<Rightarrow> bool" where
  "isPaid fees \<longleftrightarrow>
     Option.bind fees due = Some 0 \<or> Option.bind fees status = Some (utf16 ''Paid'')"

definition feesPageBanner :: "fee_status option \<Rightarrow> fee_banner" where
  "feesPageBanner fees =
     (if isPaid fees then PaidInFull
      else OutstandingBalance (numberOr (Option.bind fees due) 0))"

text \<open>
  The fee card of DashboardPage: \<open>fees?.due ? due fees.due : paid in full\<close>.
\<close>

definition dashboardFeeBanner :: "fee_status option \<Rightarrow> fee_banner" where
  "dashboardFeeBanner fees =
     (case Option.bind fees due of
        Some d \<Rightarrow> if d \<noteq> 0 then OutstandingBalance d else PaidInFull
      | None \<Rightarrow> PaidInFull)"

section \<open>Concrete inputs\<close>

text \<open>
  The attendance scenario of the specification: C1 with 30 of 40 classes at 75.0 and
  C2 with 10 of 20 at 50.0. It names no courses.
\<close>

definition course1 :: attendance_record where
  "course1 = \<lparr>course_id = utf16 ''C1'', course_name = [], attended = 30,
     total_classes = 40, percentage = 75\<rparr>"

definition course2 :: attendance_record where
  "course2 = \<lparr>course_id = utf16 ''C2'', course_name = [], attended = 10,
     total_classes = 20, percentage = 50\<rparr>"

definition scenario :: "attendance_record list" where
  "scenario = [course1, course2]"

text \<open>
  A conversation with one chat request in flight: a session with token \<open>abc\<close> in which
  \<open>hi\<close> has been sent.
\<close>

definition sessionToken :: jsstring where
  "sessionToken = utf16 ''abc''"

definition idle :: chat_state where
  "idle = initial (Some sessionToken)"

definition busy :: chat_state where
  "busy = sendMessage (utf16 ''hi'') idle"

definition attendancePrompt :: prompt where
  "attendancePrompt =
     \<lparr>prompt_text = utf16 ''Show my attendance'', prompt_action = AttendanceAction\<rparr>"


definition detailData :: chat_data where
  "detailData = \<lparr>data_reply = None, data_sources = None, data_actions = None\<rparr>"

definition replyingErrorData :: chat_data where
  "replyingErrorData =
     \<lparr>data_reply = Some (utf16 ''Service unavailable''), data_sources = None,
      data_actions = None\<rparr>"

definition detailAttendance :: attendance_data where
  "detailAttendance = \<lparr>data_attendance = None\<rparr>"

text \<open>The fee scenarios of the specification; they give no status label.\<close>

definition feesSettled :: fee_status where
  "feesSettled = \<lparr>total = Some 1000, paid = Some 1000, due = Some 0, status = None\<rparr>"

definition feesOwing :: fee_status where
  "feesOwing = \<lparr>total = Some 1000, paid = Some 600, due = Some 400, status = None\<rparr>"

text \<open>
  Mutual exclusion as a property of a state: the busy flag is set exactly while a
  request is in flight, there is at most one, and a busy transcript is not empty.
\<close>

definition oneAtATime :: "chat_state \<Rightarrow> bool" where
  "oneAtATime st \<longleftrightarrow>
     (loading st \<longleftrightarrow> inflight st \<noteq> []) \<and> length (inflight st) \<le> 1 \<and>
     (loading st \<longrightarrow> messages st \<noteq> [])"

section \<open>Sums, digits and rounding\<close>

lemma foldl_add_sum_list:
  "foldl (\<lambda>sum r. sum + f r) a rs = a + sum_list (map f rs)"
  for a :: "'a::comm_monoid_add"
  by (induction rs arbitrary: a) (simp_all add: add.assoc)

lemma totalClasses_sum: "totalClasses rs = sum_list (map total_classes rs)"
  by (simp add: totalClasses_def foldl_add_sum_list)

lemma totalAttended_sum: "totalAttended rs = sum_list (map attended rs)"
  by (simp add: totalAttended_def foldl_add_sum_list)

lemma unat_digit: "d < 10 \<Longrightarrow> unat (digit d) = 48 + d"
  unfolding digit_def by (simp only: unat_of_nat) simp

lemma digitVal_digit: "d < 10 \<Longrightarrow> digitVal (digit d) = Some d"
  by (simp add: digitVal_def word_le_nat_alt unat_digit)

lemma showNat_not_Nil: "showNat n \<noteq> []"
  by (subst showNat.simps) simp

lemma valueOfRev_Cons:
  "cs \<noteq> [] \<Longrightarrow> valueOfRev (c # cs) =
     (case (digitVal c, valueOfRev cs) of (Some d, Some v) \<Rightarrow> Some (d + 10 * v) | _ \<Rightarrow> None)"
  by (cases cs) simp_all

text \<open>Reading back the digits of \<open>n\<close> gives \<open>n\<close>.\<close>

lemma valueOfRev_showNat: "valueOfRev (rev (showNat n)) = Some n"
proof (induction n rule: showNat.induct)
  case (1 n)
  show ?case
  proof (cases "n < 10")
    case True
    then show ?thesis
      by (subst showNat.simps) (simp add: digitVal_digit)
  next
    case False
    with 1 have ih: "valueOfRev (rev (showNat (n div 10))) = Some (n div 10)"
      by simp
    from False show ?thesis
      by (subst showNat.simps)
         (simp add: valueOfRev_Cons showNat_not_Nil digitVal_digit ih)
  qed
qed

lemma parseFixed1_fixed1: "parseFixed1 (fixed1 n) = Some (of_nat n / 10)"
proof -
  have small: "showNat (n mod 10) = [digit (n mod 10)]"
    by (subst showNat.simps) simp
  have "rat_of_nat n = of_nat (10 * (n div 10) + n mod 10)"
    by simp
  then have split: "rat_of_nat (n div 10) + rat_of_nat (n mod 10) / 10 = rat_of_nat n / 10"
    by (simp only: of_nat_add of_nat_mult) simp
  show ?thesis
    by (simp add: parseFixed1_def fixed1_def small utf16_def valueOfRev_showNat
        digitVal_digit split)
qed

lemma roundHalfUp_bounds:
  "of_int (roundHalfUp x) - 1 / 2 \<le> x \<and> x < of_int (roundHalfUp x) + 1 / 2"
  unfolding roundHalfUp_def by linarith

lemma roundHalfUp_nonneg: "0 \<le> x \<Longrightarrow> 0 \<le> roundHalfUp x"
  unfolding roundHalfUp_def by linarith

lemma roundHalfUp_le: "x \<le> of_int k \<Longrightarrow> roundHalfUp x \<le> k"
  unfolding roundHalfUp_def by linarith

lemma overallPercentage_cases:
  "(totalClasses rs = 0 \<longrightarrow> overallPercentage rs = Num 0) \<and>
   (0 < totalClasses rs \<longrightarrow>
      overallPercentage rs =
        Str (fixed1 (nat (roundHalfUp
          (10 * (of_nat (totalAttended rs) / of_nat (totalClasses rs) * 100))))))"
proof -
  have "\<not> rat_of_nat (totalAttended rs) / rat_of_nat (totalClasses rs) * 100 < 0"
    by (simp add: not_less)
  then show ?thesis
    by (simp only: overallPercentage_def toFixed1_def if_False) simp
qed

lemma scenario_totals: "totalAttended scenario = 40 \<and> totalClasses scenario = 60"
  by (simp add: totalAttended_def totalClasses_def scenario_def course1_def course2_def)

section \<open>The attendance aggregator\<close>

text \<open>
  C3. For every sequence of attendance records, the courses classified as low
  attendance are exactly the records with a percentage strictly below 75: this holds of
  the filter of the chat report, of the mark and the extra line the report prints per
  course, and of the badge of the attendance and profile pages. A record at exactly
  75 is not low.
\<close>

theorem lowAttendance_threshold:
  "(r \<in> set (lowAttendance rs) \<longleftrightarrow> r \<in> set rs \<and> percentage r < 75) \<and>
   (attendanceBadge r = Low \<longleftrightarrow> percentage r < 75) \<and>
   (recordStatus r = warningSign \<longleftrightarrow> percentage r < 75) \<and>
   (percentage r = 75 \<longrightarrow>
      r \<notin> set (lowAttendance rs) \<and> attendanceBadge r = Good \<and> recordStatus r = checkMark)"
  by (auto simp: lowAttendance_def attendanceBadge_def recordStatus_def checkMark_def
      warningSign_def)

theorem lowAttendance_threshold_witness:
  "percentage course1 = 75 \<and> course1 \<in> set scenario \<and>
   course1 \<notin> set (lowAttendance scenario) \<and> attendanceBadge course1 = Good \<and>
   percentage course2 < 75 \<and> course2 \<in> set (lowAttendance scenario) \<and>
   attendanceBadge course2 = Low"
proof -
  have p1: "percentage course1 = 75" and p2: "percentage course2 < 75"
    by (simp_all add: course1_def course2_def)
  have m: "course1 \<in> set scenario" "course2 \<in> set scenario"
    by (simp_all add: scenario_def)
  from lowAttendance_threshold [of course1 scenario] lowAttendance_threshold [of course2 scenario]
    p1 p2 m
  show ?thesis by blast
qed

text \<open>
  C4. For every sequence of attendance records, \<open>totalAttended\<close> is the sum of the
  attended counts and \<open>totalClasses\<close> the sum of the class counts;
  \<open>overallPercentage\<close> is the number 0 when there are no classes, and otherwise the
  one-decimal string of a tenth nearest to \<open>100 \<times> totalAttended / totalClasses\<close>.
  The scenario yields 66.7, 40, 60 and the low courses [C2].
\<close>

theorem aggregate_totals:
  "totalAttended rs = sum_list (map attended rs) \<and>
   totalClasses rs = sum_list (map total_classes rs) \<and>
   (totalClasses rs = 0 \<longrightarrow> overallPercentage rs = Num 0) \<and>
   (0 < totalClasses rs \<longrightarrow>
      (\<exists>n. overallPercentage rs = Str (fixed1 n) \<and>
           toNumber (overallPercentage rs) = Some (of_nat n / 10) \<and>
           \<bar>100 * rat_of_nat (totalAttended rs) / rat_of_nat (totalClasses rs) - rat_of_nat n / 10\<bar>
             \<le> 1 / 20)) \<and>
   overallPercentage scenario = Str (utf16 ''66.7'') \<and>
   totalAttended scenario = 40 \<and> totalClasses scenario = 60 \<and>
   lowAttendance scenario = [course2]"
proof -
  have pos: "0 < totalClasses rs \<longrightarrow>
      (\<exists>n. overallPercentage rs = Str (fixed1 n) \<and>
           toNumber (overallPercentage rs) = Some (of_nat n / 10) \<and>
           \<bar>100 * rat_of_nat (totalAttended rs) / rat_of_nat (totalClasses rs) - rat_of_nat n / 10\<bar>
             \<le> 1 / 20)"
  proof
    assume t: "0 < totalClasses rs"
    define x :: rat where "x = of_nat (totalAttended rs) / of_nat (totalClasses rs) * 100"
    define k where "k = roundHalfUp (10 * x)"
    have x0: "0 \<le> x" by (simp add: x_def)
    then have k0: "0 \<le> k" unfolding k_def by (intro roundHalfUp_nonneg) simp
    have eq: "overallPercentage rs = Str (fixed1 (nat k))"
      using t overallPercentage_cases [of rs] by (simp add: k_def x_def)
    have kn: "rat_of_nat (nat k) = of_int k" using k0 by simp
    have b: "of_int k - 1 / 2 \<le> 10 * x \<and> 10 * x < of_int k + 1 / 2"
      unfolding k_def by (rule roundHalfUp_bounds)
    have x': "100 * rat_of_nat (totalAttended rs) / rat_of_nat (totalClasses rs) = x"
      by (simp add: x_def)
    show "\<exists>n. overallPercentage rs = Str (fixed1 n) \<and>
           toNumber (overallPercentage rs) = Some (of_nat n / 10) \<and>
           \<bar>100 * rat_of_nat (totalAttended rs) / rat_of_nat (totalClasses rs) - rat_of_nat n / 10\<bar>
             \<le> 1 / 20"
    proof (intro exI [of _ "nat k"] conjI)
      show "overallPercentage rs = Str (fixed1 (nat k))" by (rule eq)
      show "toNumber (overallPercentage rs) = Some (rat_of_nat (nat k) / 10)"
        by (simp add: eq parseFixed1_fixed1)
      show "\<bar>100 * rat_of_nat (totalAttended rs) / rat_of_nat (totalClasses rs) - rat_of_nat (nat k) / 10\<bar>
             \<le> 1 / 20"
        unfolding x' kn using b by linarith
    qed
  qed
  have r: "roundHalfUp (2000 / 3) = 667"
    unfolding roundHalfUp_def by (simp add: floor_unique)
  have s: "fixed1 667 = utf16 ''66.7''"
    by (simp add: fixed1_def showNat.simps utf16_def digit_def)
  have o: "overallPercentage scenario = Str (utf16 ''66.7'')"
    using overallPercentage_cases [of scenario] by (simp add: scenario_totals r s)
  have l: "lowAttendance scenario = [course2]"
    by (simp add: lowAttendance_def scenario_def course1_def course2_def)
  show ?thesis
    using pos o l scenario_totals overallPercentage_cases [of rs]
    by (simp add: totalAttended_sum totalClasses_sum)
qed

theorem aggregate_totals_witness:
  "0 < totalClasses scenario \<and> overallPercentage scenario \<noteq> Num 0 \<and>
   totalClasses [] = 0 \<and> overallPercentage [] = Num 0"
proof -
  have h: "0 < totalClasses scenario" by (simp add: scenario_totals)
  have e: "totalClasses [] = 0" by (simp add: totalClasses_def)
  from aggregate_totals [of scenario] h
  have "\<exists>n. overallPercentage scenario = Str (fixed1 n)" by blast
  then have "overallPercentage scenario \<noteq> Num 0" by auto
  with aggregate_totals [of "[]"] h e show ?thesis by simp
qed

lemma totalAttended_le_totalClasses:
  "\<forall>r \<in> set rs. attended r \<le> total_classes r \<Longrightarrow> totalAttended rs \<le> totalClasses rs"
  unfolding totalAttended_sum totalClasses_sum
  by (induction rs) (simp_all add: add_mono)

text \<open>
  C5. For every sequence of attendance records in which no course has more attended
  classes than classes, the number that \<open>overallPercentage\<close> denotes lies between 0
  and 100, and it is the number 0 when there are no classes at all: what is printed is
  0 or the one-decimal string of at most 1000 tenths.
\<close>

theorem overallPercentage_range:
  assumes inv: "\<forall>r \<in> set rs. attended r \<le> total_classes r"
  shows "(\<exists>v. toNumber (overallPercentage rs) = Some v \<and> 0 \<le> v \<and> v \<le> 100 \<and>
             (totalClasses rs = 0 \<longrightarrow> overallPercentage rs = Num 0 \<and> v = 0)) \<and>
         (overallPercentage rs = Num 0 \<or>
            (\<exists>n \<le> 1000. overallPercentage rs = Str (fixed1 n)))"
proof (cases "totalClasses rs = 0")
  case True
  then have "overallPercentage rs = Num 0"
    using overallPercentage_cases [of rs] by simp
  then show ?thesis by simp
next
  case False
  then have t: "0 < totalClasses rs" by simp
  define x :: rat where "x = of_nat (totalAttended rs) / of_nat (totalClasses rs) * 100"
  define k where "k = roundHalfUp (10 * x)"
  have le: "rat_of_nat (totalAttended rs) \<le> rat_of_nat (totalClasses rs)"
    using totalAttended_le_totalClasses [OF inv] by simp
  have tpos: "0 < rat_of_nat (totalClasses rs)" using t by simp
  have x100: "x \<le> 100"
    unfolding x_def using le tpos by (simp add: divide_le_eq)
  have x0: "0 \<le> x" by (simp add: x_def)
  have k0: "0 \<le> k" unfolding k_def using x0 by (intro roundHalfUp_nonneg) simp
  have "10 * x \<le> of_int 1000" using x100 by simp
  then have k1000: "k \<le> 1000" unfolding k_def by (rule roundHalfUp_le)
  have eq: "overallPercentage rs = Str (fixed1 (nat k))"
    using t overallPercentage_cases [of rs] by (simp add: k_def x_def)
  have v: "toNumber (overallPercentage rs) = Some (rat_of_nat (nat k) / 10)"
    by (simp add: eq parseFixed1_fixed1)
  have lo: "0 \<le> rat_of_nat (nat k) / 10" by simp
  have hi: "rat_of_nat (nat k) / 10 \<le> 100"
  proof -
    have "nat k \<le> 1000" using k1000 by simp
    then have "rat_of_nat (nat k) \<le> rat_of_nat 1000" by (simp only: of_nat_le_iff)
    then show ?thesis by simp
  qed
  have num: "\<exists>v. toNumber (overallPercentage rs) = Some v \<and> 0 \<le> v \<and> v \<le> 100 \<and>
             (totalClasses rs = 0 \<longrightarrow> overallPercentage rs = Num 0 \<and> v = 0)"
  proof (intro exI conjI)
    show "toNumber (overallPercentage rs) = Some (rat_of_nat (nat k) / 10)" by (rule v)
    show "0 \<le> rat_of_nat (nat k) / 10" by (rule lo)
    show "rat_of_nat (nat k) / 10 \<le> 100" by (rule hi)
    show "totalClasses rs = 0 \<longrightarrow>
        overallPercentage rs = Num 0 \<and> rat_of_nat (nat k) / 10 = 0"
      using False by simp
  qed
  have "nat k \<le> 1000" using k1000 by simp
  with eq have "\<exists>n \<le> 1000. overallPercentage rs = Str (fixed1 n)" by blast
  with num show ?thesis by blast
qed

theorem overallPercentage_range_witness:
  "attended course1 \<le> total_classes course1 \<and> attended course2 \<le> total_classes course2 \<and>
   (\<exists>v. toNumber (overallPercentage scenario) = Some v \<and> 0 \<le> v \<and> v \<le> 100)"
proof -
  have h: "\<forall>r \<in> set scenario. attended r \<le> total_classes r"
    by (simp add: scenario_def course1_def course2_def)
  from overallPercentage_range [OF h] h show ?thesis
    by (auto simp: scenario_def)
qed

section \<open>The average attendance of the dashboard and the profile page\<close>

text \<open>
  C10. The dashboard and the profile page show as average attendance the unweighted
  mean of the courses' percentages, the sum of the percentages divided by their number,
  and 0 when the sequence is empty or absent. On the scenario this mean is 62.5, while
  the chat report's overall percentage, weighted by class counts, is 66.7.
\<close>

theorem avgAttendance_mean:
  "avgAttendance None = 0 \<and>
   avgAttendance (Some \<lparr>data_attendance = None\<rparr>) = 0 \<and>
   avgAttendance (Some \<lparr>data_attendance = Some []\<rparr>) = 0 \<and>
   (rs \<noteq> [] \<longrightarrow>
      avgAttendance (Some \<lparr>data_attendance = Some rs\<rparr>) =
        sum_list (map percentage rs) / of_nat (length rs)) \<and>
   avgAttendance (Some \<lparr>data_attendance = Some scenario\<rparr>) = 125 / 2 \<and>
   toFixed1 (avgAttendance (Some \<lparr>data_attendance = Some scenario\<rparr>)) = utf16 ''62.5'' \<and>
   overallPercentage scenario = Str (utf16 ''66.7'') \<and>
   toNumber (overallPercentage scenario) \<noteq>
     Some (avgAttendance (Some \<lparr>data_attendance = Some scenario\<rparr>))"
proof -
  have avg: "avgAttendance (Some \<lparr>data_attendance = Some scenario\<rparr>) = 125 / 2"
    by (simp add: avgAttendance_def scenario_def course1_def course2_def)
  have r: "roundHalfUp 625 = 625"
    unfolding roundHalfUp_def by (simp add: floor_unique)
  have f: "toFixed1 (125 / 2) = utf16 ''62.5''"
    by (simp add: toFixed1_def r fixed1_def showNat.simps utf16_def digit_def)
  have r2: "roundHalfUp (2000 / 3) = 667"
    unfolding roundHalfUp_def by (simp add: floor_unique)
  have o: "overallPercentage scenario = Str (fixed1 667)"
    using overallPercentage_cases [of scenario] by (simp add: scenario_totals r2)
  have s: "fixed1 667 = utf16 ''66.7''"
    by (simp add: fixed1_def showNat.simps utf16_def digit_def)
  have n: "toNumber (overallPercentage scenario) = Some (667 / 10)"
    unfolding o by (simp add: parseFixed1_fixed1)
  have d: "toNumber (overallPercentage scenario) \<noteq>
     Some (avgAttendance (Some \<lparr>data_attendance = Some scenario\<rparr>))"
    unfolding n avg by simp
  have m: "rs \<noteq> [] \<longrightarrow>
      avgAttendance (Some \<lparr>data_attendance = Some rs\<rparr>) =
        sum_list (map percentage rs) / of_nat (length rs)"
    by (simp add: avgAttendance_def foldl_add_sum_list)
  have z: "avgAttendance None = 0 \<and>
   avgAttendance (Some \<lparr>data_attendance = None\<rparr>) = 0 \<and>
   avgAttendance (Some \<lparr>data_attendance = Some []\<rparr>) = 0"
    by (simp add: avgAttendance_def)
  have f': "toFixed1 (avgAttendance (Some \<lparr>data_attendance = Some scenario\<rparr>)) = utf16 ''62.5''"
    unfolding avg by (rule f)
  have o': "overallPercentage scenario = Str (utf16 ''66.7'')"
    unfolding o s by (rule refl)
  from z m avg f' o' d show ?thesis by (intro conjI) (simp_all only: simp_thms)
qed

theorem avgAttendance_mean_witness:
  "scenario \<noteq> [] \<and>
   avgAttendance (Some \<lparr>data_attendance = Some scenario\<rparr>) =
     sum_list (map percentage scenario) / of_nat (length scenario)"
proof -
  have h: "scenario \<noteq> []" by (simp add: scenario_def)
  from avgAttendance_mean [of scenario] h show ?thesis by blast
qed

section \<open>The chat component\<close>

lemma all_dropWhile_iff: "(\<forall>x \<in> set (dropWhile P s). P x) \<longleftrightarrow> (\<forall>c \<in> set s. P c)"
  by (induction s) auto

lemma trim_Nil_iff: "trim s = [] \<longleftrightarrow> (\<forall>c \<in> set s. isWhiteSpace c)"
  by (simp add: trim_def all_dropWhile_iff)

lemma oneAtATime_initial: "oneAtATime (initial tok)"
  by (simp add: oneAtATime_def initial_def)

lemma find_singleton:
  "length xs \<le> 1 \<Longrightarrow> find P xs = Some x \<Longrightarrow> xs = [x]"
  by (cases xs) (auto split: if_splits)

lemma sendMessage_resume_Inr:
  "sendMessage_resume req outcome st = Inr st' \<Longrightarrow>
     \<exists>m. st' = st\<lparr>messages := messages st @ [m], loading := False,
                   inflight := remove1 req (inflight st)\<rparr>"
  by (auto simp: sendMessage_resume_def split: sum.splits)

lemma oneAtATime_step:
  assumes i: "oneAtATime st" and s: "step e st = Inr st'"
  shows "oneAtATime st'"
proof (cases e)
  case (Change v)
  with i s show ?thesis
    by (auto simp: oneAtATime_def inputDisabled_def split: if_splits)
next
  case Submit
  with i s show ?thesis
    by (auto simp: oneAtATime_def sendDisabled_def handleSubmit_def sendMessage_def Let_def
        split: if_splits)
next
  case (Click p)
  with i s show ?thesis
    by (auto simp: oneAtATime_def promptsShown_def handlePromptClick_def
        sendMessage_def fetchAttendance_def Let_def split: if_splits)
next
  case (ChatSettled outcome)
  show ?thesis
  proof (cases "find isChatRequest (inflight st)")
    case None
    with i s ChatSettled show ?thesis by simp
  next
    case (Some req)
    with i have one: "inflight st = [req]"
      by (auto simp: oneAtATime_def intro: find_singleton)
    from s ChatSettled Some have "sendMessage_resume req outcome st = Inr st'" by simp
    then obtain m where "st' = st\<lparr>messages := messages st @ [m], loading := False,
                   inflight := remove1 req (inflight st)\<rparr>"
      using sendMessage_resume_Inr by blast
    with one show ?thesis by (simp add: oneAtATime_def)
  qed
next
  case (AttendanceSettled outcome)
  show ?thesis
  proof (cases "find (\<lambda>req. \<not> isChatRequest req) (inflight st)")
    case None
    with i s AttendanceSettled show ?thesis by simp
  next
    case (Some req)
    with i have "inflight st = [req]"
      by (auto simp: oneAtATime_def intro: find_singleton)
    with s AttendanceSettled Some show ?thesis
      by (auto simp: oneAtATime_def fetchAttendance_resume_def)
  qed
qed

lemma oneAtATime_run: "oneAtATime st \<Longrightarrow> run es st = Inr st' \<Longrightarrow> oneAtATime st'"
proof (induction es arbitrary: st)
  case Nil
  then show ?case by simp
next
  case (Cons e es)
  from Cons.prems(2) obtain st1 where s1: "step e st = Inr st1" and r: "run es st1 = Inr st'"
    by (auto split: sum.splits)
  from Cons.prems(1) s1 have "oneAtATime st1" by (rule oneAtATime_step)
  from Cons.IH [OF this r] show ?case .
qed

lemma busy_eq:
  "busy = \<lparr>token = Some sessionToken, messages = [plain User (utf16 ''hi'')], input = [],
          loading = True,
          inflight = [ChatRequest (Some sessionToken) [plain User (utf16 ''hi'')]]\<rparr>"
  by (simp add: busy_def idle_def initial_def sendMessage_def truthy_def trim_def utf16_def
      isWhiteSpace_def Let_def)

lemma busy_run: "run [Change (utf16 ''hi''), Submit] (initial (Some sessionToken)) = Inr busy"
  by (simp add: busy_eq initial_def inputDisabled_def sendDisabled_def handleSubmit_def
      sendMessage_def truthy_def trim_def utf16_def isWhiteSpace_def Let_def)

lemma step_token: "step e st = Inr st' \<Longrightarrow> token st' = token st"
  by (cases e)
     (auto simp: handleSubmit_def handlePromptClick_def sendMessage_def fetchAttendance_def
        fetchAttendance_resume_def Let_def
        split: option.splits if_splits dest!: sendMessage_resume_Inr)

lemma step_messages: "step e st = Inr st' \<Longrightarrow> length (messages st) \<le> length (messages st')"
  by (cases e)
     (auto simp: handleSubmit_def handlePromptClick_def sendMessage_def fetchAttendance_def
        fetchAttendance_resume_def Let_def
        split: option.splits if_splits dest!: sendMessage_resume_Inr)

lemma run_token: "run es st = Inr st' \<Longrightarrow> token st' = token st"
proof (induction es arbitrary: st)
  case Nil
  then show ?case by simp
next
  case (Cons e es)
  from Cons.prems obtain st1 where s1: "step e st = Inr st1" and r: "run es st1 = Inr st'"
    by (auto split: sum.splits)
  from Cons.IH [OF r] step_token [OF s1] show ?case by simp
qed

lemma run_messages: "run es st = Inr st' \<Longrightarrow> length (messages st) \<le> length (messages st')"
proof (induction es arbitrary: st)
  case Nil
  then show ?case by simp
next
  case (Cons e es)
  from Cons.prems obtain st1 where s1: "step e st = Inr st1" and r: "run es st1 = Inr st'"
    by (auto split: sum.splits)
  have "length (messages st) \<le> length (messages st1)" using s1 by (rule step_messages)
  also have "\<dots> \<le> length (messages st')" using r by (rule Cons.IH)
  finally show ?case .
qed

text \<open>
  C1. In every state that a conversation reaches in which a chat or attendance request
  is in flight, submitting another message or clicking a suggested prompt is a no-op:
  the state, and with it the transcript and the requests in flight, stays as it is.
  At most one request is in flight at a time, and the busy flag is set exactly while one
  is. (While it is set the send button and the text field are disabled and the suggested
  prompts are not rendered, so no event reaches \<open>sendMessage\<close> or \<open>fetchAttendance\<close>.)
\<close>

theorem controls_inert_while_sending:
  assumes "run es (initial tok) = Inr st"
  shows "length (inflight st) \<le> 1 \<and> (loading st \<longleftrightarrow> inflight st \<noteq> []) \<and>
         (loading st \<longrightarrow>
            step Submit st = Inr st \<and> step (Click p) st = Inr st \<and>
            step (Change v) st = Inr st)"
proof -
  have i: "oneAtATime st"
    using oneAtATime_initial assms by (rule oneAtATime_run)
  then have "loading st \<longrightarrow>
      step Submit st = Inr st \<and> step (Click p) st = Inr st \<and> step (Change v) st = Inr st"
    by (simp add: oneAtATime_def sendDisabled_def promptsShown_def inputDisabled_def)
  with i show ?thesis by (simp add: oneAtATime_def)
qed

theorem controls_inert_while_sending_witness:
  "run [Change (utf16 ''hi''), Submit] (initial (Some sessionToken)) = Inr busy \<and>
   loading busy \<and> length (inflight busy) = 1 \<and> step Submit busy = Inr busy \<and>
   step (Click attendancePrompt) busy = Inr busy \<and>
   step (Change (utf16 ''more'')) busy = Inr busy"
proof -
  have l: "loading busy" by (simp add: busy_eq)
  have n: "length (inflight busy) = 1" by (simp add: busy_eq)
  from controls_inert_while_sending [OF busy_run, of attendancePrompt "utf16 ''more''"] l n busy_run
  show ?thesis by simp
qed

text \<open>
  C2, as amended. A response with status 401 is handled like any other response. When
  its body is a JSON object or is not JSON, the chat call leaves the token as it is and
  appends one assistant message, which for an object without \<open>reply\<close> is the
  placeholder; the attendance call leaves the token as it is and appends one assistant
  message, which for an object without \<open>attendance\<close> is the no-records text. No
  conversation that runs without an error changes the token or shortens the transcript.
\<close>

theorem status_401_keeps_session:
  "(run es st = Inr st' \<longrightarrow>
      token st' = token st \<and> length (messages st) \<le> length (messages st')) \<and>
   sendMessage_resume req (Response 401 NotJson) st =
     Inr (st\<lparr>messages :=
              messages st @ [plain Assistant (utf16 ''Error: Could not connect to the server.'')],
            loading := False, inflight := remove1 req (inflight st)\<rparr>) \<and>
   sendMessage_resume req (Response 401 (JsonObject data)) st =
     Inr (st\<lparr>messages := messages st @ [assistantReply data],
            loading := False, inflight := remove1 req (inflight st)\<rparr>) \<and>
   token (fetchAttendance_resume req (Response 401 b) st) = token st \<and>
   messages (fetchAttendance_resume req (Response 401 b) st) =
     messages st @ [attendanceAnswer (Response 401 b)] \<and>
   content (assistantReply detailData) = utf16 ''Sorry, I could not process your request.'' \<and>
   content (attendanceAnswer (Response 401 (JsonObject detailAttendance))) =
     utf16 ''No attendance records found for your courses.''"
proof -
  have r: "run es st = Inr st' \<longrightarrow>
      token st' = token st \<and> length (messages st) \<le> length (messages st')"
    using run_token [of es st st'] run_messages [of es st st'] by simp
  show ?thesis
    unfolding simp_thms
    by (intro conjI r)
       (simp_all add: sendMessage_resume_def chatAnswer_def fetchAttendance_resume_def
          attendanceAnswer_def assistantReply_def detailData_def detailAttendance_def
          stringOr_def plain_def)
qed

theorem status_401_keeps_session_witness:
  "run [ChatSettled (Response 401 (JsonObject detailData))] busy =
     Inr (idle\<lparr>messages := [plain User (utf16 ''hi''), assistantReply detailData]\<rparr>) \<and>
   token (idle\<lparr>messages := [plain User (utf16 ''hi''), assistantReply detailData]\<rparr>) =
     token busy \<and>
   length (messages busy) \<le>
     length (messages (idle\<lparr>messages := [plain User (utf16 ''hi''), assistantReply detailData]\<rparr>))"
proof -
  have e: "run [ChatSettled (Response 401 (JsonObject detailData))] busy =
     Inr (idle\<lparr>messages := [plain User (utf16 ''hi''), assistantReply detailData]\<rparr>)"
    by (simp add: busy_eq idle_def initial_def sendMessage_resume_def chatAnswer_def)
  from status_401_keeps_session
    [of "[ChatSettled (Response 401 (JsonObject detailData))]" busy
        "idle\<lparr>messages := [plain User (utf16 ''hi''), assistantReply detailData]\<rparr>"] e
  show ?thesis by simp
qed

text \<open>
  C2, as stated, fails: after a 401 answer to the chat request of the session with token
  \<open>abc\<close>, the token is still there and the transcript holds two messages.
\<close>

theorem status_401_not_logged_out:
  "step (ChatSettled (Response 401 (JsonObject detailData))) busy =
     Inr \<lparr>token = Some sessionToken,
          messages =
            [plain User (utf16 ''hi''),
             \<lparr>role = Assistant, content = utf16 ''Sorry, I could not process your request.'',
              sources = Some [], actions = Some [], attendanceData = None\<rparr>],
          input = [], loading = False, inflight = []\<rparr>"
  by (simp add: busy_eq sendMessage_resume_def chatAnswer_def assistantReply_def detailData_def
      stringOr_def arrayOr_def)



text \<open>
  C7, as amended. When the chat request fails in transport or decoding (\<open>fetch\<close>
  rejects, or the body is not JSON), exactly one assistant message with the fixed text
  of the \<open>catch\<close> block is appended, the busy flag is cleared and nothing is thrown.
  A response with an error status and a JSON object as body is not told apart from a
  success: exactly one assistant message is appended, the body's reply if it has a
  non-empty one and the placeholder otherwise, and the busy flag is cleared.
\<close>

theorem chat_failure_appends_one_message:
  "sendMessage_resume req NetworkError st =
     Inr (st\<lparr>messages :=
              messages st @ [plain Assistant (utf16 ''Error: Could not connect to the server.'')],
            loading := False, inflight := remove1 req (inflight st)\<rparr>) \<and>
   sendMessage_resume req (Response code NotJson) st =
     Inr (st\<lparr>messages :=
              messages st @ [plain Assistant (utf16 ''Error: Could not connect to the server.'')],
            loading := False, inflight := remove1 req (inflight st)\<rparr>) \<and>
   sendMessage_resume req (Response code (JsonObject data)) st =
     Inr (st\<lparr>messages := messages st @ [assistantReply data],
            loading := False, inflight := remove1 req (inflight st)\<rparr>) \<and>
   role (assistantReply data) = Assistant \<and>
   (data_reply data = None \<or> data_reply data = Some [] \<longrightarrow>
      content (assistantReply data) = utf16 ''Sorry, I could not process your request.'') \<and>
   (data_reply data = Some r \<and> r \<noteq> [] \<longrightarrow> content (assistantReply data) = r)"
  by (auto simp: sendMessage_resume_def chatAnswer_def assistantReply_def stringOr_def
      truthy_def)

theorem chat_failure_appends_one_message_witness:
  "data_reply detailData = None \<and>
   content (assistantReply detailData) = utf16 ''Sorry, I could not process your request.'' \<and>
   sendMessage_resume (ChatRequest None []) NetworkError idle =
     Inr (idle\<lparr>messages :=
       [plain Assistant (utf16 ''Error: Could not connect to the server.'')]\<rparr>)"
proof -
  have h: "data_reply detailData = None" by (simp add: detailData_def)
  have i: "idle\<lparr>messages :=
              messages idle @ [plain Assistant (utf16 ''Error: Could not connect to the server.'')],
            loading := False, inflight := remove1 (ChatRequest None []) (inflight idle)\<rparr> =
           idle\<lparr>messages :=
              [plain Assistant (utf16 ''Error: Could not connect to the server.'')]\<rparr>"
    by (simp add: idle_def initial_def)
  from chat_failure_appends_one_message [of "ChatRequest None []" idle 500 detailData "[]"] h i
  show ?thesis by simp
qed

text \<open>
  C7, as stated, fails: for a response with status 500 whose body carries a reply, the
  appended message is that reply and none of the two fixed texts.
\<close>

theorem api_error_reply_is_shown:
  "step (ChatSettled (Response 500 (JsonObject replyingErrorData))) busy =
     Inr (idle\<lparr>messages :=
       [plain User (utf16 ''hi''),
        \<lparr>role = Assistant, content = utf16 ''Service unavailable'', sources = Some [],
         actions = Some [], attendanceData = None\<rparr>]\<rparr>) \<and>
   utf16 ''Service unavailable'' \<noteq> utf16 ''Error: Could not connect to the server.'' \<and>
   utf16 ''Service unavailable'' \<noteq> utf16 ''Sorry, I could not process your request.''"
  by (simp add: busy_eq idle_def initial_def sendMessage_resume_def chatAnswer_def
      assistantReply_def replyingErrorData_def stringOr_def arrayOr_def truthy_def utf16_def)

text \<open>
  C8. Submitting a text whose trimmed form is empty, that is, a text of white space
  only, leaves the whole state unchanged. A chat request is issued only for a text
  whose trimmed form is not empty; the user message is then appended, the busy flag set,
  and the request carries the transcript with that message at its end.
\<close>

theorem blank_submission_is_noop:
  "(trim txt = [] \<longrightarrow> sendMessage txt st = st) \<and>
   ((\<forall>c \<in> set txt. isWhiteSpace c) \<longrightarrow> sendMessage txt st = st) \<and>
   (trim txt \<noteq> [] \<longrightarrow>
      messages (sendMessage txt st) = messages st @ [plain User txt] \<and>
      loading (sendMessage txt st) \<and>
      inflight (sendMessage txt st) =
        inflight st @ [ChatRequest (token st) (messages (sendMessage txt st))]) \<and>
   (inflight (sendMessage txt st) \<noteq> inflight st \<longrightarrow> trim txt \<noteq> []) \<and>
   (trim (input st) = [] \<longrightarrow> handleSubmit st = st)"
proof -
  have a: "(\<forall>c \<in> set txt. isWhiteSpace c) \<longrightarrow> sendMessage txt st = st"
    using trim_Nil_iff [of "txt"] by (simp add: sendMessage_def truthy_def)
  have b: "trim txt = [] \<longrightarrow> sendMessage txt st = st"
    by (simp add: sendMessage_def truthy_def)
  have c: "trim txt \<noteq> [] \<longrightarrow>
      messages (sendMessage txt st) = messages st @ [plain User txt] \<and>
      loading (sendMessage txt st) \<and>
      inflight (sendMessage txt st) =
        inflight st @ [ChatRequest (token st) (messages (sendMessage txt st))]"
    by (simp add: sendMessage_def truthy_def Let_def)
  have d: "inflight (sendMessage txt st) \<noteq> inflight st \<longrightarrow> trim txt \<noteq> []"
    using b by auto
  have e: "trim (input st) = [] \<longrightarrow> handleSubmit st = st"
    by (simp add: handleSubmit_def sendMessage_def truthy_def)
  from a b c d e show ?thesis by (intro conjI)
qed

theorem blank_submission_is_noop_witness:
  "trim (utf16 ''   '') = [] \<and> sendMessage (utf16 ''   '') idle = idle \<and>
   trim (utf16 '' hi '') \<noteq> [] \<and>
   inflight (sendMessage (utf16 '' hi '') idle) =
     [ChatRequest (Some sessionToken) [plain User (utf16 '' hi '')]]"
proof -
  have h: "trim (utf16 ''   '') = []" "trim (utf16 '' hi '') \<noteq> []"
    by (simp_all add: trim_def utf16_def isWhiteSpace_def)
  have i: "inflight idle = []" "token idle = Some sessionToken" "messages idle = []"
    by (simp_all add: idle_def initial_def)
  from blank_submission_is_noop [of "utf16 ''   ''" idle]
       blank_submission_is_noop [of "utf16 '' hi ''" idle] h i
  show ?thesis by simp
qed

section \<open>The fee status\<close>

text \<open>
  C9. Fees of 1000 with 1000 paid and 0 due are shown as paid in full, and fees of 1000
  with 600 paid and 400 due as an outstanding balance of 400, on the profile page and on
  the fees page. The fees page shows paid in full exactly when the due amount is 0 or
  the status label is \<open>Paid\<close>; the profile page exactly when the due amount is 0.
  Otherwise the balance shown is the due amount, as it is on the dashboard's fee card.
\<close>

theorem fee_banner_classification:
  "(isPaid (Some f) \<longleftrightarrow> due f = Some 0 \<or> status f = Some (utf16 ''Paid'')) \<and>
   (feesPageBanner (Some f) = PaidInFull \<longleftrightarrow> isPaid (Some f)) \<and>
   (profileFeeBanner (Some f) = PaidInFull \<longleftrightarrow> due f = Some 0) \<and>
   (due f = Some d \<and> \<not> isPaid (Some f) \<longrightarrow> feesPageBanner (Some f) = OutstandingBalance d) \<and>
   (due f = Some d \<and> d \<noteq> 0 \<longrightarrow> profileFeeBanner (Some f) = OutstandingBalance d) \<and>
   (due f = Some d \<longrightarrow>
      dashboardFeeBanner (Some f) = (if d = 0 then PaidInFull else OutstandingBalance d)) \<and>
   profileFeeBanner (Some feesSettled) = PaidInFull \<and>
   feesPageBanner (Some feesSettled) = PaidInFull \<and>
   profileFeeBanner (Some feesOwing) = OutstandingBalance 400 \<and>
   feesPageBanner (Some feesOwing) = OutstandingBalance 400"
  by (auto simp: isPaid_def feesPageBanner_def profileFeeBanner_def dashboardFeeBanner_def
      numberOr_def feesSettled_def feesOwing_def)

theorem fee_banner_classification_witness:
  "due feesOwing = Some 400 \<and> \<not> isPaid (Some feesOwing) \<and>
   feesPageBanner (Some feesOwing) = OutstandingBalance 400 \<and>
   profileFeeBanner (Some feesOwing) = OutstandingBalance 400 \<and>
   due feesSettled = Some 0 \<and> isPaid (Some feesSettled)"
proof -
  have h: "due feesOwing = Some 400" "status feesOwing = None" "due feesSettled = Some 0"
    by (simp_all add: feesOwing_def feesSettled_def)
  from fee_banner_classification [of feesOwing 400] fee_banner_classification [of feesSettled 0] h
  show ?thesis by simp
qed

end
